theory Spec2Isabelle
  imports Complex_Main
begin

section \<open>Python-level failures and float results\<close>

text \<open>
  Every exception the modelled code can raise is a value of \<open>py_error\<close>; a function that
  can raise returns \<open>py_error + 'a\<close>, with \<open>Inl\<close> for the exception.
\<close>

datatype py_error = TypeError | ValueError | ZeroDivisionError | OSError | KeyError | RuntimeError

text \<open>
  The result of a float division of the tensor library: dividing by zero does not raise,
  it yields an infinity or not-a-number.
\<close>

datatype scalar = Finite real | PosInf | NegInf | NaN

definition div_by_size :: "real \<Rightarrow> nat \<Rightarrow> scalar" where
  "div_by_size s n =
     (if n = 0 then (if s = 0 then NaN else if 0 < s then PosInf else NegInf)
      else Finite (s / real n))"

definition nonneg_loss :: "scalar \<Rightarrow> bool" where
  "nonneg_loss v = (case v of Finite r \<Rightarrow> 0 \<le> r | PosInf \<Rightarrow> True | NegInf \<Rightarrow> False | NaN \<Rightarrow> False)"


section \<open>task/graph/loss.py: RankingLoss\<close>

text \<open>
  One-dimensional tensors are lists of reals. \<open>flip\<close> is \<open>Tensor.flip(0)\<close>, \<open>slice_to\<close> is
  the Python slice \<open>[:k]\<close>, \<open>detach\<close> leaves the values as they are.
\<close>

definition flip :: "real list \<Rightarrow> real list" where
  "flip xs = rev xs"

definition slice_to :: "nat \<Rightarrow> real list \<Rightarrow> real list" where
  "slice_to k xs = take k xs"

definition detach :: "real list \<Rightarrow> real list" where
  "detach xs = xs"

text \<open>
  Elementwise binary operations broadcast: equal lengths combine pointwise, a
  one-element tensor is stretched, anything else raises.
\<close>

definition broadcast2 :: "(real \<Rightarrow> real \<Rightarrow> real) \<Rightarrow> real list \<Rightarrow> real list \<Rightarrow> py_error + real list" where
  "broadcast2 f xs ys =
     (if length xs = length ys then Inr (map2 f xs ys)
      else if length xs = 1 then Inr (map (f (hd xs)) ys)
      else if length ys = 1 then Inr (map (\<lambda>x. f x (hd ys)) xs)
      else Inl RuntimeError)"

definition clamp_min :: "real \<Rightarrow> real list \<Rightarrow> real list" where
  "clamp_min lo xs = map (max lo) xs"

definition sign_t :: "real list \<Rightarrow> real list" where
  "sign_t xs = map sgn xs"

text \<open>Line 22: \<open>(pred_loss - pred_loss.flip(0))[:len(pred_loss)//2]\<close>; line 24 is the same on the targets.\<close>

definition halve :: "real list \<Rightarrow> py_error + real list" where
  "halve xs =
     (case broadcast2 (-) xs (flip xs) of
        Inl e \<Rightarrow> Inl e
      | Inr d \<Rightarrow> Inr (slice_to (length xs div 2) d))"

definition RankingLoss_forward :: "real list \<Rightarrow> real list \<Rightarrow> py_error + scalar" where
  "RankingLoss_forward pred_loss target_loss =
     (case halve pred_loss of
        Inl e \<Rightarrow> Inl e
      | Inr pred \<Rightarrow>
     (case halve target_loss of
        Inl e \<Rightarrow> Inl e
      | Inr target0 \<Rightarrow>
     (let target = detach target0;
          one = map (\<lambda>v. 2 * v - 1) (sign_t (clamp_min 0 target))
      in case broadcast2 (*) one pred of
           Inl e \<Rightarrow> Inl e
         | Inr scaled \<Rightarrow>
             Inr (div_by_size (sum_list (clamp_min 0 (map (\<lambda>v. 1 - v) scaled))) (length pred)))))"

text \<open>The sign \<open>s_i\<close> and the hinge term of pair \<open>i\<close>, as the specification writes them.\<close>

definition pair_sign :: "real list \<Rightarrow> nat \<Rightarrow> real" where
  "pair_sign target i = (if target ! i - target ! (length target - 1 - i) > 0 then 1 else -1)"

definition pair_hinge :: "real list \<Rightarrow> real list \<Rightarrow> nat \<Rightarrow> real" where
  "pair_hinge pred target i =
     max 0 (1 - pair_sign target i * (pred ! i - pred ! (length pred - 1 - i)))"


section \<open>query/graph/vae.py on tensor shapes\<close>

text \<open>
  A tensor's size is the list of its dimensions. The layers of the tensor library are
  modelled by what they do to a size and by the size mismatches on which they raise.
\<close>

type_synonym shape = "nat list"

record conv2d =
  in_channels :: nat
  out_channels :: nat
  kernel_size :: nat
  stride :: nat
  padding :: nat

definition Conv2d :: "nat \<Rightarrow> nat \<Rightarrow> nat \<Rightarrow> nat \<Rightarrow> nat \<Rightarrow> conv2d" where
  "Conv2d i out k s p =
     \<lparr>in_channels = i, out_channels = out, kernel_size = k, stride = s, padding = p\<rparr>"

text \<open>
  A convolution takes a batch \<open>[N, C, H, W]\<close> whose \<open>C\<close> is its number of input channels
  and whose padded height and width hold the kernel; each spatial size \<open>n\<close> becomes
  \<open>\<lfloor>(n + 2p - k) / s\<rfloor> + 1\<close>. A size with other than four dimensions is refused, and so is
  a convolution without input channels or without output channels.
\<close>

definition conv_out :: "conv2d \<Rightarrow> nat \<Rightarrow> nat" where
  "conv_out c n = (n + 2 * padding c - kernel_size c) div stride c + 1"

definition Conv2d_shape :: "conv2d \<Rightarrow> shape \<Rightarrow> py_error + shape" where
  "Conv2d_shape c sh =
     (case sh of
        [n, ch, h, w] \<Rightarrow>
          if 0 < in_channels c \<and> 0 < out_channels c \<and> ch = in_channels c
             \<and> kernel_size c \<le> h + 2 * padding c \<and> kernel_size c \<le> w + 2 * padding c
          then Inr [n, out_channels c, conv_out c h, conv_out c w]
          else Inl RuntimeError
      | _ \<Rightarrow> Inl RuntimeError)"

text \<open>
  A transposed convolution takes each spatial size \<open>n\<close> to \<open>(n - 1) s - 2p + k\<close>, which has
  to be positive; it needs input and output channels as a convolution does.
\<close>

definition convT_out :: "conv2d \<Rightarrow> nat \<Rightarrow> int" where
  "convT_out c n = (int n - 1) * int (stride c) - 2 * int (padding c) + int (kernel_size c)"

definition ConvTranspose2d_shape :: "conv2d \<Rightarrow> shape \<Rightarrow> py_error + shape" where
  "ConvTranspose2d_shape c sh =
     (case sh of
        [n, ch, h, w] \<Rightarrow>
          if 0 < in_channels c \<and> 0 < out_channels c \<and> ch = in_channels c
             \<and> 0 < convT_out c h \<and> 0 < convT_out c w
          then Inr [n, out_channels c, nat (convT_out c h), nat (convT_out c w)]
          else Inl RuntimeError
      | _ \<Rightarrow> Inl RuntimeError)"

text \<open>\<open>nn.Linear(in_features, out_features)\<close> acts on the last dimension, which has to be \<open>in_features\<close>.\<close>

definition Linear_shape :: "nat \<Rightarrow> nat \<Rightarrow> shape \<Rightarrow> py_error + shape" where
  "Linear_shape in_features out_features sh =
     (if sh \<noteq> [] \<and> last sh = in_features then Inr (butlast sh @ [out_features])
      else Inl RuntimeError)"

text \<open>
  Broadcasting of two sizes, aligned at the last dimension: equal dimensions stay, a
  dimension of size one is stretched, a missing leading dimension is supplied.
\<close>

fun broadcast_rev :: "shape \<Rightarrow> shape \<Rightarrow> py_error + shape" where
  "broadcast_rev [] ys = Inr ys"
| "broadcast_rev xs [] = Inr xs"
| "broadcast_rev (x # xs) (y # ys) =
     (if x = y \<or> y = 1 then
        (case broadcast_rev xs ys of Inl e \<Rightarrow> Inl e | Inr r \<Rightarrow> Inr (x # r))
      else if x = 1 then
        (case broadcast_rev xs ys of Inl e \<Rightarrow> Inl e | Inr r \<Rightarrow> Inr (y # r))
      else Inl RuntimeError)"

definition broadcast_shape :: "shape \<Rightarrow> shape \<Rightarrow> py_error + shape" where
  "broadcast_shape a b =
     (case broadcast_rev (rev a) (rev b) of Inl e \<Rightarrow> Inl e | Inr r \<Rightarrow> Inr (rev r))"

text \<open>Sequencing of steps that can raise.\<close>

definition and_then :: "py_error + 'a \<Rightarrow> ('a \<Rightarrow> py_error + 'b) \<Rightarrow> py_error + 'b" where
  "and_then r f = (case r of Inl e \<Rightarrow> Inl e | Inr v \<Rightarrow> f v)"

subsection \<open>Residual and ResidualStack\<close>

record residual =
  block_conv_1 :: conv2d
  block_conv_2 :: conv2d

definition Residual :: "nat \<Rightarrow> nat \<Rightarrow> nat \<Rightarrow> residual" where
  "Residual in_ch num_hiddens num_residual_hiddens =
     \<lparr>block_conv_1 = Conv2d in_ch num_residual_hiddens 3 1 1,
      block_conv_2 = Conv2d num_residual_hiddens num_hiddens 1 1 0\<rparr>"

text \<open>The rectifier keeps the size; \<open>x + self._block(x)\<close> broadcasts.\<close>

definition Residual_shape :: "residual \<Rightarrow> shape \<Rightarrow> py_error + shape" where
  "Residual_shape r x =
     and_then (Conv2d_shape (block_conv_1 r) x) (\<lambda>a.
     and_then (Conv2d_shape (block_conv_2 r) a) (\<lambda>b.
       broadcast_shape x b))"

definition ResidualStack :: "nat \<Rightarrow> nat \<Rightarrow> nat \<Rightarrow> nat \<Rightarrow> residual list" where
  "ResidualStack in_ch num_hiddens num_residual_layers num_residual_hiddens =
     replicate num_residual_layers (Residual in_ch num_hiddens num_residual_hiddens)"

fun ResidualStack_shape :: "residual list \<Rightarrow> shape \<Rightarrow> py_error + shape" where
  "ResidualStack_shape [] x = Inr x"
| "ResidualStack_shape (l # ls) x = and_then (Residual_shape l x) (ResidualStack_shape ls)"

subsection \<open>Encoder\<close>

record encoder =
  enc_conv_1 :: conv2d
  enc_conv_2 :: conv2d
  enc_conv_3 :: conv2d
  enc_residual_stack :: "residual list"

definition Encoder :: "nat \<Rightarrow> nat \<Rightarrow> nat \<Rightarrow> nat \<Rightarrow> encoder" where
  "Encoder in_ch num_hiddens num_residual_layers num_residual_hiddens =
     \<lparr>enc_conv_1 = Conv2d in_ch (num_hiddens div 2) 4 2 1,
      enc_conv_2 = Conv2d (num_hiddens div 2) num_hiddens 4 2 1,
      enc_conv_3 = Conv2d num_hiddens num_hiddens 3 1 1,
      enc_residual_stack =
        ResidualStack num_hiddens num_hiddens num_residual_layers num_residual_hiddens\<rparr>"

definition Encoder_shape :: "encoder \<Rightarrow> shape \<Rightarrow> py_error + shape" where
  "Encoder_shape e inputs =
     and_then (Conv2d_shape (enc_conv_1 e) inputs) (\<lambda>x.
     and_then (Conv2d_shape (enc_conv_2 e) x) (\<lambda>x.
     and_then (Conv2d_shape (enc_conv_3 e) x) (\<lambda>x.
       ResidualStack_shape (enc_residual_stack e) x)))"

subsection \<open>Decoder\<close>

record decoder =
  dec_conv_1 :: conv2d
  dec_residual_stack :: "residual list"
  dec_conv_trans_1 :: conv2d
  dec_conv_trans_2 :: conv2d
  dec_conv_trans_3 :: conv2d

definition Decoder :: "nat \<Rightarrow> nat \<Rightarrow> nat \<Rightarrow> nat \<Rightarrow> decoder" where
  "Decoder in_ch num_hiddens num_residual_layers num_residual_hiddens =
     \<lparr>dec_conv_1 = Conv2d in_ch num_hiddens 3 1 1,
      dec_residual_stack =
        ResidualStack num_hiddens num_hiddens num_residual_layers num_residual_hiddens,
      dec_conv_trans_1 = Conv2d num_hiddens (num_hiddens div 2) 4 2 1,
      dec_conv_trans_2 = Conv2d (num_hiddens div 2) (num_hiddens div 4) 4 2 1,
      dec_conv_trans_3 = Conv2d (num_hiddens div 4) 3 4 2 1\<rparr>"

definition Decoder_shape :: "decoder \<Rightarrow> shape \<Rightarrow> py_error + shape" where
  "Decoder_shape d inputs =
     and_then (Conv2d_shape (dec_conv_1 d) inputs) (\<lambda>x.
     and_then (ResidualStack_shape (dec_residual_stack d) x) (\<lambda>x.
     and_then (ConvTranspose2d_shape (dec_conv_trans_1 d) x) (\<lambda>x.
     and_then (ConvTranspose2d_shape (dec_conv_trans_2 d) x) (\<lambda>x.
       ConvTranspose2d_shape (dec_conv_trans_3 d) x))))"


subsection \<open>VAE\<close>

record linear =
  in_features :: nat
  out_features :: nat

definition Linear :: "nat \<Rightarrow> nat \<Rightarrow> linear" where
  "Linear i out = \<lparr>in_features = i, out_features = out\<rparr>"

definition Linear_apply :: "linear \<Rightarrow> shape \<Rightarrow> py_error + shape" where
  "Linear_apply l sh = Linear_shape (in_features l) (out_features l) sh"

record vae =
  max_distance :: real
  embedding_dim :: nat
  num_embeddings :: nat
  vae_encoder :: encoder
  conv1 :: conv2d
  fc_mu :: linear
  fc_var :: linear
  fc_z :: linear
  fc_recover :: linear
  vae_decoder :: decoder

definition VAE :: "nat \<Rightarrow> nat \<Rightarrow> nat \<Rightarrow> nat \<Rightarrow> nat \<Rightarrow> real \<Rightarrow> vae" where
  "VAE num_hiddens num_residual_layers num_residual_hiddens n_embeddings e_dim max_dist =
     \<lparr>max_distance = max_dist,
      embedding_dim = e_dim,
      num_embeddings = n_embeddings,
      vae_encoder = Encoder 3 num_hiddens num_residual_layers num_residual_hiddens,
      conv1 = Conv2d num_hiddens num_hiddens 3 2 1,
      fc_mu = Linear (num_hiddens * 16) num_hiddens,
      fc_var = Linear (num_hiddens * 16) num_hiddens,
      fc_z = Linear num_hiddens e_dim,
      fc_recover = Linear num_hiddens (num_hiddens * 16),
      vae_decoder = Decoder (e_dim + num_hiddens) num_hiddens num_residual_layers
                      num_residual_hiddens\<rparr>"

text \<open>\<open>eps * std + mu\<close>, where \<open>std\<close> and \<open>eps\<close> have the size of \<open>logvar\<close>.\<close>

definition reparameterize_shape :: "shape \<Rightarrow> shape \<Rightarrow> py_error + shape" where
  "reparameterize_shape mu logvar =
     and_then (broadcast_shape logvar logvar) (\<lambda>scaled. broadcast_shape scaled mu)"

text \<open>\<open>Tensor.repeat\<close>: at least as many repeat counts as dimensions; missing leading dimensions count as one.\<close>

definition repeat_shape :: "shape \<Rightarrow> nat list \<Rightarrow> py_error + shape" where
  "repeat_shape sh reps =
     (if length reps < length sh then Inl RuntimeError
      else Inr (map2 (*) (replicate (length reps - length sh) 1 @ sh) reps))"

text \<open>\<open>Tensor.view([-1, c, w, h])\<close>: the first dimension is inferred from the number of elements.\<close>

definition view_infer :: "shape \<Rightarrow> nat \<Rightarrow> nat \<Rightarrow> nat \<Rightarrow> py_error + shape" where
  "view_infer sh c w h =
     (if 0 < c * w * h \<and> prod_list sh mod (c * w * h) = 0
      then Inr [prod_list sh div (c * w * h), c, w, h]
      else Inl RuntimeError)"

text \<open>\<open>torch.cat([a, b], dim=1)\<close>: the same number of dimensions, and the same sizes except in dimension 1.\<close>

definition cat_dim1 :: "shape \<Rightarrow> shape \<Rightarrow> py_error + shape" where
  "cat_dim1 a b =
     (if length a = length b \<and> 2 \<le> length a \<and> a[1 := 0] = b[1 := 0]
      then Inr (a[1 := a ! 1 + b ! 1])
      else Inl RuntimeError)"

text \<open>\<open>VAE.forward\<close>, returning the sizes of \<open>(x_recon, _z, mu, logvar)\<close>.\<close>

definition VAE_forward_shape :: "vae \<Rightarrow> shape \<Rightarrow> py_error + (shape \<times> shape \<times> shape \<times> shape)" where
  "VAE_forward_shape v x =
     and_then (Encoder_shape (vae_encoder v) x) (\<lambda>encoder_out.
     and_then (Conv2d_shape (conv1 v) encoder_out) (\<lambda>x'.
     and_then (Linear_apply (fc_mu v) encoder_out) (\<lambda>mu.
     and_then (Linear_apply (fc_var v) encoder_out) (\<lambda>logvar.
     and_then (reparameterize_shape mu logvar) (\<lambda>z.
     and_then (Linear_apply (fc_z v) z) (\<lambda>z'.
     (let code = z'; c = x' ! 1; w = x' ! 2; h = x' ! 3 in
     and_then (repeat_shape code [1, 1, w, h]) (\<lambda>quantized.
     and_then (Linear_apply (fc_recover v) z) (\<lambda>recovered.
     and_then (view_infer recovered c w h) (\<lambda>d_in.
     and_then (cat_dim1 d_in quantized) (\<lambda>decoder_in.
     and_then (Decoder_shape (vae_decoder v) decoder_in) (\<lambda>x_recon.
       Inr (x_recon, z', mu, logvar)))))))))))))"


section \<open>query/graph/vae.py on tensor values: the residual block\<close>

text \<open>
  A tensor with its values: its size and its elements in row-major order. \<open>unravel\<close> and
  \<open>ravel\<close> convert between a position in the element list and a multi-index.
\<close>

record tensor =
  dims :: shape
  storage :: "real list"

definition zeros :: "shape \<Rightarrow> tensor" where
  "zeros sh = \<lparr>dims = sh, storage = replicate (prod_list sh) 0\<rparr>"

fun unravel :: "shape \<Rightarrow> nat \<Rightarrow> nat list" where
  "unravel [] idx = []"
| "unravel (d # ds) idx = (idx div prod_list ds) mod d # unravel ds idx"

fun ravel :: "shape \<Rightarrow> nat list \<Rightarrow> nat" where
  "ravel (d # ds) (i # ix) = i * prod_list ds + ravel ds ix"
| "ravel _ _ = 0"

definition elem :: "tensor \<Rightarrow> nat list \<Rightarrow> real" where
  "elem t ix = storage t ! ravel (dims t) ix"

text \<open>\<open>nn.ReLU(True)\<close> rectifies in place: the tensor it is given holds the result afterwards.\<close>

definition relu_inplace :: "tensor \<Rightarrow> tensor" where
  "relu_inplace t = t\<lparr>storage := map (max 0) (storage t)\<rparr>"

text \<open>
  The convolution without bias: the element of the output at \<open>[n, out, oi, oj]\<close> sums, over
  the input channels and the kernel window, weight times zero-padded input.
\<close>

definition padded_at :: "tensor \<Rightarrow> nat \<Rightarrow> nat \<Rightarrow> nat \<Rightarrow> nat \<Rightarrow> nat \<Rightarrow> real" where
  "padded_at x p n ch i j =
     (if p \<le> i \<and> i - p < dims x ! 2 \<and> p \<le> j \<and> j - p < dims x ! 3
      then elem x [n, ch, i - p, j - p] else 0)"

definition conv_pixel :: "conv2d \<Rightarrow> tensor \<Rightarrow> tensor \<Rightarrow> nat list \<Rightarrow> real" where
  "conv_pixel c wt x out_idx =
     (let n = out_idx ! 0; out = out_idx ! 1; oi = out_idx ! 2; oj = out_idx ! 3 in
      \<Sum>ch\<leftarrow>[0..<in_channels c]. \<Sum>di\<leftarrow>[0..<kernel_size c]. \<Sum>dj\<leftarrow>[0..<kernel_size c].
        elem wt [out, ch, di, dj] *
        padded_at x (padding c) n ch (oi * stride c + di) (oj * stride c + dj))"

definition Conv2d_forward :: "conv2d \<Rightarrow> tensor \<Rightarrow> tensor \<Rightarrow> py_error + tensor" where
  "Conv2d_forward c wt x =
     and_then (Conv2d_shape c (dims x)) (\<lambda>sh.
       Inr \<lparr>dims = sh, storage = map (\<lambda>idx. conv_pixel c wt x (unravel sh idx)) [0..<prod_list sh]\<rparr>)"

text \<open>Elementwise addition with broadcasting.\<close>

definition broadcast_index :: "shape \<Rightarrow> shape \<Rightarrow> nat \<Rightarrow> nat" where
  "broadcast_index out inp idx =
     ravel inp (map2 (\<lambda>d i. if d = 1 then 0 else i) inp
                  (drop (length out - length inp) (unravel out idx)))"

definition tensor_add :: "tensor \<Rightarrow> tensor \<Rightarrow> py_error + tensor" where
  "tensor_add a b =
     and_then (broadcast_shape (dims a) (dims b)) (\<lambda>sh.
       if dims a = dims b then Inr \<lparr>dims = sh, storage = map2 (+) (storage a) (storage b)\<rparr>
       else Inr \<lparr>dims = sh,
                 storage = map (\<lambda>idx. storage a ! broadcast_index sh (dims a) idx +
                                    storage b ! broadcast_index sh (dims b) idx)
                            [0..<prod_list sh]\<rparr>)"

text \<open>
  \<open>Residual.forward\<close>: \<open>x + self._block(x)\<close>. The block's first layer rectifies \<open>x\<close> in place
  before the sum reads it, so the sum is taken with the rectified \<open>x\<close>. The result pairs
  the caller's tensor after the call with the value returned; \<open>w1\<close> and \<open>w2\<close> are the
  weights of the two convolutions.
\<close>

definition Residual_forward :: "residual \<Rightarrow> tensor \<Rightarrow> tensor \<Rightarrow> tensor \<Rightarrow> py_error + (tensor \<times> tensor)" where
  "Residual_forward r w1 w2 x =
     (let x' = relu_inplace x in
      and_then (Conv2d_forward (block_conv_1 r) w1 x') (\<lambda>a.
      and_then (Conv2d_forward (block_conv_2 r) w2 (relu_inplace a)) (\<lambda>b.
      and_then (tensor_add x' b) (\<lambda>out. Inr (x', out)))))"


section \<open>The learning-rate scheduler\<close>

text \<open>
  \<open>torch.optim.lr_scheduler.ReduceLROnPlateau\<close> in mode \<open>min\<close> with the relative threshold,
  as the library documents it. \<open>best\<close> is \<open>None\<close> until a first value has been seen (the
  library starts from infinity). \<open>lr\<close> is the learning rate of the optimizer it controls.
\<close>

record plateau =
  lr :: real
  factor :: real
  patience :: nat
  threshold :: real
  cooldown :: nat
  min_lr :: real
  eps :: real
  best :: "real option"
  num_bad_epochs :: nat
  cooldown_counter :: nat
  last_epoch :: nat

text \<open>
  The constructor; a keyword argument that the caller leaves out takes the library's
  default: \<open>factor=0.1\<close>, \<open>patience=10\<close>, \<open>cooldown=0\<close>.
\<close>

definition ReduceLROnPlateau :: "real \<Rightarrow> real option \<Rightarrow> nat option \<Rightarrow> nat option \<Rightarrow> plateau" where
  "ReduceLROnPlateau optimizer_lr factor_kw patience_kw cooldown_kw =
     \<lparr>lr = optimizer_lr,
      factor = (case factor_kw of None \<Rightarrow> 1 / 10 | Some f \<Rightarrow> f),
      patience = (case patience_kw of None \<Rightarrow> 10 | Some p \<Rightarrow> p),
      threshold = 1 / 10000,
      cooldown = (case cooldown_kw of None \<Rightarrow> 0 | Some c \<Rightarrow> c),
      min_lr = 0,
      eps = 1 / 100000000,
      best = None,
      num_bad_epochs = 0,
      cooldown_counter = 0,
      last_epoch = 0\<rparr>"

definition is_better :: "plateau \<Rightarrow> real \<Rightarrow> bool" where
  "is_better s a = (case best s of None \<Rightarrow> True | Some b \<Rightarrow> a < b * (1 - threshold s))"

definition reduce_lr :: "plateau \<Rightarrow> plateau" where
  "reduce_lr s =
     (let new_lr = max (lr s * factor s) (min_lr s)
      in if lr s - new_lr > eps s then s\<lparr>lr := new_lr\<rparr> else s)"

definition scheduler_step :: "real \<Rightarrow> plateau \<Rightarrow> plateau" where
  "scheduler_step metrics s =
     (let s1 = s\<lparr>last_epoch := last_epoch s + 1\<rparr>;
          s2 = (if is_better s1 metrics
                then s1\<lparr>best := Some metrics, num_bad_epochs := 0\<rparr>
                else s1\<lparr>num_bad_epochs := num_bad_epochs s1 + 1\<rparr>);
          s3 = (if 0 < cooldown_counter s2
                then s2\<lparr>cooldown_counter := cooldown_counter s2 - 1, num_bad_epochs := 0\<rparr>
                else s2)
      in if patience s3 < num_bad_epochs s3
         then (reduce_lr s3)\<lparr>cooldown_counter := cooldown s3, num_bad_epochs := 0\<rparr>
         else s3)"

text \<open>Line 74 of strategy.py: \<open>ReduceLROnPlateau(self.vae_opt, mode='min', factor=0.8, cooldown=8)\<close>.\<close>

definition Strategy_scheduler :: "real \<Rightarrow> plateau" where
  "Strategy_scheduler vae_learning_rate =
     ReduceLROnPlateau vae_learning_rate (Some (8 / 10)) None (Some 8)"

text \<open>The scheduler after a sequence of steps, one monitored value each.\<close>

definition scheduler_steps :: "real list \<Rightarrow> plateau \<Rightarrow> plateau" where
  "scheduler_steps ms s = fold scheduler_step ms s"


section \<open>query/strategy.py\<close>

subsection \<open>Python calls, unpacking and division\<close>

text \<open>
  A call passes its positional arguments as a list and a returned tuple is the list of
  its components. \<open>VAE.forward(self, x)\<close> takes one argument besides \<open>self\<close>: a call with
  any other number raises \<open>TypeError\<close> before the body runs. (Calling through
  \<open>nn.DataParallel\<close> hands the same arguments on to \<open>forward\<close>.) Tensors are seen here by
  their sizes.
\<close>

definition VAE_call :: "vae \<Rightarrow> shape list \<Rightarrow> py_error + shape list" where
  "VAE_call v args =
     (case args of
        [x] \<Rightarrow> and_then (VAE_forward_shape v x)
                 (\<lambda>(x_recon, z', mu, logvar). Inr [x_recon, z', mu, logvar])
      | _ \<Rightarrow> Inl TypeError)"

text \<open>\<open>a, b, c = value\<close>: the tuple must have as many components as there are targets.\<close>

definition unpack :: "nat \<Rightarrow> 'a list \<Rightarrow> py_error + 'a list" where
  "unpack n vs = (if length vs = n then Inr vs else Inl ValueError)"

text \<open>\<open>a / b\<close> on Python integers.\<close>

definition py_truediv :: "int \<Rightarrow> int \<Rightarrow> py_error + real" where
  "py_truediv a b = (if b = 0 then Inl ZeroDivisionError else Inr (real_of_int a / real_of_int b))"

text \<open>\<open>os.path.join\<close> on POSIX paths.\<close>

definition os_path_join :: "string \<Rightarrow> string \<Rightarrow> string" where
  "os_path_join a b =
     (if b \<noteq> [] \<and> hd b = CHR ''/'' then b
      else if a = [] \<or> last a = CHR ''/'' then a @ b
      else a @ ''/'' @ b)"

subsection \<open>What Strategy works with\<close>

text \<open>
  The classifier, the uncertainty score, the reconstruction loss and the tensor
  arithmetic come from modules that are not among the sources or from the tensor
  library; they are parameters, over any type \<open>'t\<close> of tensors. \<open>vae_net\<close> is the call of
  \<open>self.vae\<close>, which can raise. \<open>requires_grad\<close> says whether a tensor records a graph
  for differentiation, \<open>saves_tensors\<close> whether that graph holds buffers that a backward
  pass frees.
\<close>

record 't collaborators =
  task_net :: "'t \<Rightarrow> 't"
  uncertainty_score :: "'t \<Rightarrow> 't"
  vae_net :: "'t list \<Rightarrow> py_error + 't list"
  loss_fn :: "'t \<Rightarrow> 't \<Rightarrow> 't"
  tensor_plus :: "'t \<Rightarrow> 't \<Rightarrow> 't"
  tensor_minus :: "'t \<Rightarrow> 't \<Rightarrow> 't"
  tensor_div :: "'t \<Rightarrow> real \<Rightarrow> 't"
  tensor_abs :: "'t \<Rightarrow> 't"
  tensor_mean :: "'t \<Rightarrow> 't"
  to_float :: "'t \<Rightarrow> real"
  requires_grad :: "'t \<Rightarrow> bool"
  saves_tensors :: "'t \<Rightarrow> bool"

text \<open>
  Modelled from the spec: the running-average accumulator \<open>AverageMeter\<close> of
  \<open>utils/metrics.py\<close>, which is not among the sources: count, sum, current value and
  average, all zero after a reset; an update with weight 1 adds the value to the sum and
  one to the count and recomputes the average.
\<close>

record average_meter =
  meter_val :: real
  meter_sum :: real
  meter_count :: nat
  meter_avg :: real

definition AverageMeter :: average_meter where
  "AverageMeter = \<lparr>meter_val = 0, meter_sum = 0, meter_count = 0, meter_avg = 0\<rparr>"

definition meter_update :: "real \<Rightarrow> average_meter \<Rightarrow> average_meter" where
  "meter_update v m =
     \<lparr>meter_val = v, meter_sum = meter_sum m + v, meter_count = meter_count m + 1,
      meter_avg = (meter_sum m + v) / real (meter_count m + 1)\<rparr>"

text \<open>What the optimizer and the automatic differentiation have done, in order.\<close>

datatype 't autograd_event = ZeroGrad | Backward 't | OptimizerStep

text \<open>
  \<open>loss.backward()\<close>. The library raises \<open>RuntimeError\<close> for a tensor that records no
  graph, and for a second pass through a graph whose buffers an earlier pass of the same
  step has freed (no pass here asks to retain the graph). Each step starts with
  \<open>zero_grad\<close>, so the passes of the running step are those after the last \<open>ZeroGrad\<close>.
\<close>

definition passed_before :: "'t autograd_event list \<Rightarrow> 't \<Rightarrow> bool" where
  "passed_before done loss = (Backward loss \<in> set (takeWhile (\<lambda>e. e \<noteq> ZeroGrad) (rev done)))"

definition backward ::
  "'t collaborators \<Rightarrow> 't autograd_event list \<Rightarrow> 't \<Rightarrow> py_error + 't autograd_event list" where
  "backward env done loss =
     (if requires_grad env loss
      then if passed_before done loss \<and> saves_tensors env loss
           then Inl RuntimeError
           else Inr (done @ [Backward loss])
      else Inl RuntimeError)"

text \<open>
  The entries of the configuration that \<open>Strategy\<close> reads (\<open>config_epoch\<close> is \<open>config.epoch\<close>).
\<close>

record config =
  root_path :: string
  checkpoint_directory :: string
  config_epoch :: nat
  vae_num_hiddens :: nat
  vae_num_residual_layers :: nat
  vae_num_residual_hiddens :: nat
  vae_num_embeddings :: nat
  vae_embedding_dim :: nat
  vae_commitment_cost :: real
  vae_distance :: real
  vae_decay :: real
  vae_learning_rate :: real

text \<open>
  The state of a \<open>Strategy\<close>: its configuration, its counters and seed, the weights of the
  two networks, the scheduler, and what it has done to the outside: the checkpoint files
  (each a dictionary from a key to weights), the lines printed and the calls to the
  optimizer and the differentiation.
\<close>

record ('t, 'w) strategy =
  config :: config
  step_cnt :: nat
  best_acc :: real
  epoch :: nat
  manual_seed :: nat
  task_weights :: 'w
  vae_weights :: 'w
  vae_scheduler :: plateau
  files :: "string \<rightharpoonup> (string \<rightharpoonup> 'w)"
  stdout :: "string list"
  autograd :: "'t autograd_event list"

definition print_line :: "string \<Rightarrow> ('t, 'w) strategy \<Rightarrow> ('t, 'w) strategy" where
  "print_line l st = st\<lparr>stdout := stdout st @ [l]\<rparr>"

definition quoted :: "string \<Rightarrow> string" where
  "quoted s = [CHR 0x27] @ s @ [CHR 0x27]"

text \<open>\<open>str\<close> of a natural number.\<close>

fun str_nat :: "nat \<Rightarrow> string" where
  "str_nat n = (if n < 10 then [char_of (48 + n)] else str_nat (n div 10) @ [char_of (48 + n mod 10)])"

subsection \<open>load_checkpoint and save_checkpoint\<close>

text \<open>\<open>torch.load\<close> of a file that is not there raises \<open>FileNotFoundError\<close>, an \<open>OSError\<close>.\<close>

definition torch_load :: "(string \<rightharpoonup> 'c) \<Rightarrow> string \<Rightarrow> py_error + 'c" where
  "torch_load fs filename = (case fs filename of None \<Rightarrow> Inl OSError | Some c \<Rightarrow> Inr c)"

text \<open>\<open>d[key]\<close> on a dictionary.\<close>

definition subscript :: "(string \<rightharpoonup> 'c) \<Rightarrow> string \<Rightarrow> py_error + 'c" where
  "subscript d k = (case d k of None \<Rightarrow> Inl KeyError | Some c \<Rightarrow> Inr c)"

text \<open>
  The \<open>try\<close> block holds the first print, the load and \<open>load_state_dict\<close>; only \<open>OSError\<close> is
  caught. \<open>load_state_dict\<close> replaces the weights of the classifier.
\<close>

definition task_filename :: "('t, 'w) strategy \<Rightarrow> string" where
  "task_filename st =
     os_path_join (os_path_join (root_path (config st)) (checkpoint_directory (config st)))
       ''task.pth.tar''"

definition load_checkpoint :: "('t, 'w) strategy \<Rightarrow> py_error + ('t, 'w) strategy" where
  "load_checkpoint st =
     (let filename = task_filename st;
          st1 = print_line (''Loading checkpoint '' @ quoted filename) st
      in case and_then (torch_load (files st1) filename) (\<lambda>checkpoint.
              and_then (subscript checkpoint ''task_state_dict'') (\<lambda>sd.
                Inr (st1\<lparr>task_weights := sd\<rparr>))) of
           Inl e \<Rightarrow>
             if e = OSError then
               Inr (print_line ''**First time to train**''
                     (print_line (''No checkpoint exists from ''
                                    @ quoted (checkpoint_directory (config st))
                                    @ ''. Skipping...'') st1))
             else Inl e
         | Inr st2 \<Rightarrow> Inr st2)"

definition save_checkpoint :: "('t, 'w) strategy \<Rightarrow> ('t, 'w) strategy" where
  "save_checkpoint st =
     (let tmp_name = os_path_join (os_path_join (root_path (config st))
                                     (checkpoint_directory (config st))) ''vae.pth.tar'';
          state = [''vae_state_dict'' \<mapsto> vae_weights st]
      in st\<lparr>files := (files st)(tmp_name \<mapsto> state)\<rparr>)"

subsection \<open>The constructor\<close>

text \<open>
  The call \<open>vae(...)\<close> of line 62 passes its arguments by position to
  \<open>VAE.__init__(self, num_hiddens, num_residual_layers, num_residual_hiddens,
  num_embeddings, embedding_dim, max_distance)\<close>: six parameters besides \<open>self\<close>. Any
  other number of arguments raises \<open>TypeError\<close>, and so does a size that is not an
  integer when the layers are built.
\<close>

datatype py_number = PyInt nat | PyFloat real

definition number_value :: "py_number \<Rightarrow> real" where
  "number_value x = (case x of PyInt n \<Rightarrow> real n | PyFloat r \<Rightarrow> r)"

definition VAE_construct :: "py_number list \<Rightarrow> py_error + vae" where
  "VAE_construct args =
     (case args of
        [PyInt num_hiddens, PyInt num_residual_layers, PyInt num_residual_hiddens,
         PyInt n_embeddings, PyInt e_dim, max_dist] \<Rightarrow>
          Inr (VAE num_hiddens num_residual_layers num_residual_hiddens n_embeddings e_dim
                 (number_value max_dist))
      | _ \<Rightarrow> Inl TypeError)"

text \<open>\<open>print_train_info\<close>; the number of parameters comes from a module that is not among the sources.\<close>

definition print_train_info :: "nat \<Rightarrow> ('t, 'w) strategy \<Rightarrow> ('t, 'w) strategy" where
  "print_train_info n_parameters st =
     print_line (''Number of generator parameters: '' @ str_nat n_parameters)
       (print_line (''seed:  '' @ str_nat (manual_seed st)) st)"

text \<open>
  \<open>Strategy.__init__\<close>, as far as it concerns the state above: the counters, the
  classifier with its fresh weights, the uncertainty network built from eight entries
  of the configuration, the scheduler, the seed, \<open>load_checkpoint\<close> and
  \<open>print_train_info\<close>. The fresh weights, the seed drawn, the number of parameters and
  the files found are given. The result pairs the network with the state.
\<close>

definition Strategy_init ::
  "config \<Rightarrow> nat \<Rightarrow> nat \<Rightarrow> 'w \<Rightarrow> 'w \<Rightarrow> nat \<Rightarrow> (string \<rightharpoonup> (string \<rightharpoonup> 'w)) \<Rightarrow>
     py_error + (vae \<times> ('t, 'w) strategy)" where
  "Strategy_init cfg cycle seed fresh_task fresh_vae n_parameters fs =
     and_then (VAE_construct
                 [PyInt (vae_num_hiddens cfg), PyInt (vae_num_residual_layers cfg),
                  PyInt (vae_num_residual_hiddens cfg), PyInt (vae_num_embeddings cfg),
                  PyInt (vae_embedding_dim cfg), PyFloat (vae_commitment_cost cfg),
                  PyFloat (vae_distance cfg), PyFloat (vae_decay cfg)]) (\<lambda>net.
     and_then (load_checkpoint
                 \<lparr>config = cfg, step_cnt = cycle, best_acc = 0, epoch = 0, manual_seed = seed,
                  task_weights = fresh_task, vae_weights = fresh_vae,
                  vae_scheduler = Strategy_scheduler (vae_learning_rate cfg),
                  files = fs, stdout = [], autograd = []\<rparr>) (\<lambda>st.
       Inr (net, print_train_info n_parameters st)))"

subsection \<open>train_by_epoch\<close>

text \<open>
  Lines 146 to 153: the forward computations of one training batch and its loss.
\<close>

definition train_loss :: "'t collaborators \<Rightarrow> ('t, 'w) strategy \<Rightarrow> 't \<Rightarrow> py_error + 't" where
  "train_loss env st data =
     (let task_output = task_net env data;
          u_score = uncertainty_score env task_output
      in and_then (vae_net env [data, u_score]) (\<lambda>returned.
         and_then (unpack 4 returned) (\<lambda>vs.
           let vq_loss = vs ! 0; data_recon = vs ! 1; perplexity = vs ! 2; distance = vs ! 3;
               recon_error = loss_fn env data_recon data;
               loss = tensor_plus env recon_error vq_loss
           in Inr (if step_cnt st \<noteq> 0
                   then tensor_plus env loss
                          (tensor_mean env (tensor_abs env
                             (tensor_minus env u_score
                                (tensor_div env distance (vae_distance (config st))))))
                   else loss))))"

text \<open>
  Lines 140 to 158: one training batch. \<open>zero_grad\<close> comes first; after the loss,
  \<open>loss.backward()\<close> is called twice, then the optimizer steps and the meter takes the
  loss. An exception of either pass ends the step.
\<close>

definition train_step ::
  "'t collaborators \<Rightarrow> ('t, 'w) strategy \<times> average_meter \<Rightarrow> 't \<Rightarrow>
     py_error + (('t, 'w) strategy \<times> average_meter)" where
  "train_step env sm data =
     (let st = fst sm; avg_loss = snd sm;
          st1 = st\<lparr>autograd := autograd st @ [ZeroGrad]\<rparr>
      in and_then (train_loss env st1 data) (\<lambda>loss.
         and_then (backward env (autograd st1) loss) (\<lambda>once.
         and_then (backward env once loss) (\<lambda>twice.
           Inr (st1\<lparr>autograd := twice @ [OptimizerStep]\<rparr>,
                meter_update (to_float env loss) avg_loss)))))"

text \<open>The loaders yield pairs of images and labels; only the images (\<open>data[0]\<close>) are used.\<close>

fun train_batches ::
  "'t collaborators \<Rightarrow> ('t, 'w) strategy \<times> average_meter \<Rightarrow> ('t \<times> 't) list \<Rightarrow>
     py_error + (('t, 'w) strategy \<times> average_meter)" where
  "train_batches env sm [] = Inr sm"
| "train_batches env sm (d # ds) =
     and_then (train_step env sm (fst d)) (\<lambda>sm'. train_batches env sm' ds)"

text \<open>Lines 176 to 181: the forward computations of one test batch and its loss.\<close>

definition eval_loss :: "'t collaborators \<Rightarrow> 't \<Rightarrow> py_error + 't" where
  "eval_loss env data =
     (let task_output = task_net env data;
          u_score = uncertainty_score env task_output
      in and_then (vae_net env [data, u_score]) (\<lambda>returned.
         and_then (unpack 3 returned) (\<lambda>vs.
           let vq_loss = vs ! 0; data_recon = vs ! 1; perplexity = vs ! 2;
               recon_error = loss_fn env data_recon data
           in Inr (tensor_plus env recon_error vq_loss))))"

fun eval_batches ::
  "'t collaborators \<Rightarrow> average_meter \<Rightarrow> ('t \<times> 't) list \<Rightarrow> py_error + average_meter" where
  "eval_batches env avg_loss [] = Inr avg_loss"
| "eval_batches env avg_loss (d # ds) =
     and_then (eval_loss env (fst d))
       (\<lambda>loss. eval_batches env (meter_update (to_float env loss) avg_loss) ds)"

text \<open>
  Lines 164 to 189: the evaluation pass. \<open>total\<close> and \<open>correct\<close> are set to zero before the
  loop, the loop does not assign them, and the ratio \<open>correct / total\<close> is taken after it.
\<close>

definition evaluate ::
  "'t collaborators \<Rightarrow> ('t, 'w) strategy \<Rightarrow> ('t \<times> 't) list \<Rightarrow> py_error + ('t, 'w) strategy" where
  "evaluate env st test_loader =
     (let total = 0; correct = 0 in
      and_then (eval_batches env AverageMeter test_loader) (\<lambda>avg_loss.
      and_then (py_truediv correct total) (\<lambda>acc.
        if best_acc st < acc then
          and_then (py_truediv correct total) (\<lambda>acc'.
            Inr (save_checkpoint (st\<lparr>best_acc := acc'\<rparr>)))
        else Inr st)))"

definition train_by_epoch ::
  "'t collaborators \<Rightarrow> ('t, 'w) strategy \<Rightarrow> ('t \<times> 't) list \<Rightarrow> ('t \<times> 't) list \<Rightarrow>
     py_error + ('t, 'w) strategy" where
  "train_by_epoch env st train_loader test_loader =
     and_then (train_batches env (st, AverageMeter) train_loader) (\<lambda>sm.
       let st1 = fst sm; avg_loss = snd sm;
           st2 = st1\<lparr>vae_scheduler := scheduler_step (meter_val avg_loss) (vae_scheduler st1)\<rparr>
       in evaluate env st2 test_loader)"

text \<open>\<open>train\<close>: \<open>config.epoch\<close> rounds, each counting \<open>self.epoch\<close> up first.\<close>

fun train_rounds ::
  "nat \<Rightarrow> 't collaborators \<Rightarrow> ('t, 'w) strategy \<Rightarrow> ('t \<times> 't) list \<Rightarrow> ('t \<times> 't) list \<Rightarrow>
     py_error + ('t, 'w) strategy" where
  "train_rounds 0 env st train_loader test_loader = Inr st"
| "train_rounds (Suc n) env st train_loader test_loader =
     and_then (train_by_epoch env (st\<lparr>epoch := epoch st + 1\<rparr>) train_loader test_loader)
       (\<lambda>st'. train_rounds n env st' train_loader test_loader)"

definition train ::
  "'t collaborators \<Rightarrow> ('t, 'w) strategy \<Rightarrow> ('t \<times> 't) list \<Rightarrow> ('t \<times> 't) list \<Rightarrow>
     py_error + ('t, 'w) strategy" where
  "train env st train_loader test_loader =
     train_rounds (config_epoch (config st)) env st train_loader test_loader"


section \<open>Facts about RankingLoss\<close>

lemma halve_eq:
  "halve xs = Inr (map (\<lambda>i. xs ! i - xs ! (length xs - 1 - i)) [0..<length xs div 2])"
proof -
  let ?n = "length xs"
  have "take (?n div 2) (map2 (-) xs (rev xs)) =
        map (\<lambda>i. xs ! i - xs ! (?n - 1 - i)) [0..<?n div 2]"
  proof (rule nth_equalityI)
    show "length (take (?n div 2) (map2 (-) xs (rev xs))) =
          length (map (\<lambda>i. xs ! i - xs ! (?n - 1 - i)) [0..<?n div 2])"
      by simp
  next
    fix i
    assume "i < length (take (?n div 2) (map2 (-) xs (rev xs)))"
    then have i: "i < ?n div 2" by simp
    then have "i < ?n" by simp
    then have "rev xs ! i = xs ! (?n - 1 - i)"
      by (simp add: rev_nth)
    with i \<open>i < ?n\<close> show "take (?n div 2) (map2 (-) xs (rev xs)) ! i =
          map (\<lambda>i. xs ! i - xs ! (?n - 1 - i)) [0..<?n div 2] ! i"
      by simp
  qed
  then show ?thesis
    by (simp add: halve_def broadcast2_def flip_def slice_to_def)
qed

lemma length_halve: "halve xs = Inr d \<Longrightarrow> length d = length xs div 2"
  by (auto simp: halve_eq)

lemma one_value: "2 * sgn (max 0 (t::real)) - 1 = (if t > 0 then 1 else -1)"
  by (simp add: max_def)

lemma RankingLoss_general:
  assumes "length pred = length target"
  shows "RankingLoss_forward pred target =
         Inr (div_by_size (\<Sum>i<length pred div 2. pair_hinge pred target i) (length pred div 2))"
proof -
  let ?k = "length pred div 2"
  let ?p = "map (\<lambda>i. pred ! i - pred ! (length pred - 1 - i)) [0..<?k]"
  let ?t = "map (\<lambda>i. target ! i - target ! (length target - 1 - i)) [0..<?k]"
  let ?one = "map (\<lambda>v. 2 * v - 1) (sign_t (clamp_min 0 (detach ?t)))"
  have one: "?one = map (pair_sign target) [0..<?k]"
    by (simp add: sign_t_def clamp_min_def detach_def pair_sign_def one_value o_def)
  have prod: "broadcast2 (*) ?one ?p =
        Inr (map (\<lambda>i. pair_sign target i * (pred ! i - pred ! (length pred - 1 - i))) [0..<?k])"
    unfolding one by (simp add: broadcast2_def) (rule nth_equalityI, simp_all)
  have hinge: "clamp_min 0 (map (\<lambda>v. 1 - v)
        (map (\<lambda>i. pair_sign target i * (pred ! i - pred ! (length pred - 1 - i))) [0..<?k])) =
        map (pair_hinge pred target) [0..<?k]"
    by (simp add: clamp_min_def pair_hinge_def o_def)
  have s: "sum_list (map (pair_hinge pred target) [0..<?k]) = (\<Sum>i<?k. pair_hinge pred target i)"
    by (simp add: interv_sum_list_conv_sum_set_nat atLeast0LessThan)
  show ?thesis
    unfolding RankingLoss_forward_def halve_eq assms [symmetric]
    using prod hinge s assms by (simp add: Let_def)
qed

lemma pair_hinge_nonneg: "0 \<le> pair_hinge pred target i"
  by (simp add: pair_hinge_def)


text \<open>
  Claim C4. For an even batch length \<open>N\<close> (at least one pair, so that the divisor of the
  stated formula is not zero) and predicted and target losses of length \<open>N\<close>,
  \<open>RankingLoss.forward\<close> returns \<open>(1/(N/2)) \<cdot> \<Sum>\<^bsub>i<N/2\<^esub> max(0, 1 - s\<^sub>i \<cdot> (pred\<^sub>i - pred\<^bsub>N-1-i\<^esub>))\<close> with
  \<open>s\<^sub>i = +1\<close> if \<open>target\<^sub>i - target\<^bsub>N-1-i\<^esub> > 0\<close> and \<open>-1\<close> otherwise; the sign is taken from the
  detached target differences and the divisor is the number of pairs \<open>N/2\<close>.
\<close>

theorem RankingLoss_even:
  assumes "length pred_loss = N" and "length target_loss = N" and "even N" and "0 < N"
  shows "RankingLoss_forward pred_loss target_loss =
         Inr (Finite ((1 / real (N div 2)) *
           (\<Sum>i<N div 2.
              max 0 (1 - (if target_loss ! i - target_loss ! (N - 1 - i) > 0 then 1 else -1) *
                         (pred_loss ! i - pred_loss ! (N - 1 - i))))))"
proof -
  from assms have k: "0 < N div 2" by presburger
  have "RankingLoss_forward pred_loss target_loss =
        Inr (div_by_size (\<Sum>i<N div 2. pair_hinge pred_loss target_loss i) (N div 2))"
    using RankingLoss_general [of pred_loss target_loss] assms by simp
  with k show ?thesis
    using assms by (simp add: div_by_size_def pair_hinge_def pair_sign_def)
qed

theorem RankingLoss_even_witness:
  "RankingLoss_forward [1, 2, 3, 5] [4, 1, 3, 2] = Inr (Finite (5 / 2))"
proof -
  have "RankingLoss_forward [1, 2, 3, 5] [4, 1, 3, 2] =
         Inr (Finite ((1 / real ((4::nat) div 2)) *
           (\<Sum>i<(4::nat) div 2.
              max 0 (1 - (if [4, 1, 3, 2::real] ! i - [4, 1, 3, 2] ! (4 - 1 - i) > 0 then 1 else -1) *
                         ([1, 2, 3, 5::real] ! i - [1, 2, 3, 5] ! (4 - 1 - i))))))"
    by (rule RankingLoss_even) simp_all
  also have "(4::nat) div 2 = Suc (Suc 0)" by simp
  finally show ?thesis by (simp add: lessThan_Suc)
qed

text \<open>
  Claim C5, as the code has it. For an odd batch length \<open>N\<close> the reverse-and-halve
  transform gives the predicted-difference half and the target-difference half the same
  length \<open>(N - 1) / 2\<close>: the middle example is paired with itself and cut off by the slice.
  From \<open>N = 3\<close> on the loss is the mean hinge term over these \<open>(N - 1) / 2\<close> pairs.
\<close>

theorem RankingLoss_odd:
  assumes "length pred_loss = N" and "length target_loss = N" and "odd N"
  shows "\<exists>p t. halve pred_loss = Inr p \<and> halve target_loss = Inr t \<and>
           length p = (N - 1) div 2 \<and> length t = (N - 1) div 2 \<and>
           (3 \<le> N \<longrightarrow>
             RankingLoss_forward pred_loss target_loss =
               Inr (Finite ((\<Sum>i<(N - 1) div 2. pair_hinge pred_loss target_loss i) /
                            real ((N - 1) div 2))))"
proof -
  from assms have half: "N div 2 = (N - 1) div 2" by presburger
  have loss: "RankingLoss_forward pred_loss target_loss =
      Inr (div_by_size (\<Sum>i<(N - 1) div 2. pair_hinge pred_loss target_loss i) ((N - 1) div 2))"
    using RankingLoss_general [of pred_loss target_loss] assms half by simp
  have "3 \<le> N \<longrightarrow> RankingLoss_forward pred_loss target_loss =
      Inr (Finite ((\<Sum>i<(N - 1) div 2. pair_hinge pred_loss target_loss i) /
                   real ((N - 1) div 2)))"
  proof
    assume "3 \<le> N"
    then have "(N - 1) div 2 \<noteq> 0" by presburger
    then show "RankingLoss_forward pred_loss target_loss =
      Inr (Finite ((\<Sum>i<(N - 1) div 2. pair_hinge pred_loss target_loss i) /
                   real ((N - 1) div 2)))"
      unfolding loss div_by_size_def by simp
  qed
  then show ?thesis
    using assms half by (simp add: halve_eq)
qed

theorem RankingLoss_odd_witness:
  "halve [1, 2, 3] = Inr [-2] \<and> halve [3, 1, 2] = Inr [1] \<and>
   RankingLoss_forward [1, 2, 3] [3, 1, 2] = Inr (Finite (pair_hinge [1, 2, 3] [3, 1, 2] 0))"
  using RankingLoss_odd [of "[1, 2, 3]" 3 "[3, 1, 2]"]
  by (auto simp: halve_eq)

theorem RankingLoss_odd_counterexample:
  "halve [1, 2, 3] = Inr [-2] \<and> halve [3, 1, 2] = Inr [1] \<and>
   length [-2::real] = length [1::real] \<and>
   RankingLoss_forward [1, 2, 3] [3, 1, 2] = Inr (Finite 3)"
  by (simp add: RankingLoss_forward_def halve_eq broadcast2_def sign_t_def clamp_min_def
      detach_def div_by_size_def)

text \<open>
  Claim C10. On a batch of length 0 or 1 the transform leaves no pair: the empty sum is
  divided by zero. No exception is raised; the value returned is not-a-number, which is
  not a non-negative loss.
\<close>

theorem RankingLoss_no_pairs:
  assumes "length pred_loss \<le> 1" and "length target_loss \<le> 1"
  shows "halve pred_loss = Inr [] \<and>
         RankingLoss_forward pred_loss target_loss = Inr NaN \<and> \<not> nonneg_loss NaN"
proof -
  from assms have "length pred_loss div 2 = 0" "length target_loss div 2 = 0" by simp_all
  then show ?thesis
    by (simp add: RankingLoss_forward_def halve_eq broadcast2_def sign_t_def clamp_min_def
        detach_def div_by_size_def nonneg_loss_def)
qed

theorem RankingLoss_no_pairs_witness:
  "RankingLoss_forward [] [] = Inr NaN \<and> RankingLoss_forward [7] [2] = Inr NaN"
  using RankingLoss_no_pairs [of "[]" "[]"] RankingLoss_no_pairs [of "[7]" "[2]"]
  by simp


section \<open>Facts about the sizes in the uncertainty network\<close>

lemma broadcast_rev_same: "broadcast_rev xs xs = Inr xs"
  by (induction xs) simp_all

lemma broadcast_shape_same: "broadcast_shape sh sh = Inr sh"
  by (simp add: broadcast_shape_def broadcast_rev_same)

lemma Residual_shape_same:
  assumes "0 < h" and "0 < w" and "0 < c" and "0 < r"
  shows "Residual_shape (Residual c c r) [n, c, h, w] = Inr [n, c, h, w]"
  using assms
  by (simp add: Residual_shape_def Residual_def Conv2d_def Conv2d_shape_def conv_out_def
      and_then_def broadcast_shape_same)

lemma ResidualStack_shape_same:
  assumes "0 < h" and "0 < w" and "0 < c" and "0 < r"
  shows "ResidualStack_shape (replicate l (Residual c c r)) [n, c, h, w] = Inr [n, c, h, w]"
  using assms by (induction l) (simp_all add: Residual_shape_same and_then_def)

lemma Encoder_shape_32:
  assumes "2 \<le> H" and "0 < R"
  shows "Encoder_shape (Encoder 3 H L R) [B, 3, 32, 32] = Inr [B, H, 8, 8]"
proof -
  from assms have "0 < H div 2" and "0 < H" by simp_all
  with assms show ?thesis
    by (simp add: Encoder_shape_def Encoder_def Conv2d_def Conv2d_shape_def conv_out_def
        and_then_def ResidualStack_def ResidualStack_shape_same)
qed

lemma VAE_forward_shape_32:
  assumes "2 \<le> H" and "0 < R"
  shows "VAE_forward_shape (VAE H L R NE E md) [B, 3, 32, 32] = Inl RuntimeError"
proof -
  have "Linear_apply (Linear (H * 16) H) [B, H, 8, 8] = Inl RuntimeError"
    by (simp add: Linear_apply_def Linear_def Linear_shape_def)
  with assms show ?thesis
    by (simp add: VAE_forward_shape_def VAE_def Encoder_shape_32 and_then_def
        Conv2d_def Conv2d_shape_def conv_out_def)
qed

text \<open>
  Claim C2, as the code has it. For a batch of \<open>B\<close> 3-channel 32\<times>32 images, a hidden width
  \<open>H\<close> of at least 2 (so that the first convolution, of \<open>H // 2\<close> output channels, has one)
  and at least one residual channel, the encoder's output has \<open>H\<close> channels and spatial
  size 8\<times>8 (two stride-2 convolutions); the 4\<times>4 tensor with \<open>H\<close> channels is what the
  further stride-2 convolution \<open>conv1\<close> of the network makes of it. \<open>fc_mu\<close> and \<open>fc_var\<close>
  take vectors of \<open>H \<times> 16\<close> entries to vectors of \<open>H\<close> entries.
\<close>

theorem Encoder_output_size:
  assumes "2 \<le> H" and "0 < R"
  shows "Encoder_shape (vae_encoder (VAE H L R NE E md)) [B, 3, 32, 32] = Inr [B, H, 8, 8] \<and>
   Conv2d_shape (conv1 (VAE H L R NE E md)) [B, H, 8, 8] = Inr [B, H, 4, 4] \<and>
   Linear_apply (fc_mu (VAE H L R NE E md)) [B, H * 16] = Inr [B, H] \<and>
   Linear_apply (fc_var (VAE H L R NE E md)) [B, H * 16] = Inr [B, H]"
  using assms
  by (simp add: VAE_def Encoder_shape_32 Conv2d_def Conv2d_shape_def conv_out_def
      Linear_apply_def Linear_def Linear_shape_def)

theorem Encoder_output_size_witness:
  "Encoder_shape (vae_encoder (VAE 4 2 32 8 16 1)) [2, 3, 32, 32] = Inr [2, 4, 8, 8] \<and>
   Conv2d_shape (conv1 (VAE 4 2 32 8 16 1)) [2, 4, 8, 8] = Inr [2, 4, 4, 4] \<and>
   Linear_apply (fc_mu (VAE 4 2 32 8 16 1)) [2, 64] = Inr [2, 4] \<and>
   Linear_apply (fc_var (VAE 4 2 32 8 16 1)) [2, 64] = Inr [2, 4]"
  using Encoder_output_size [of 4 32 2 8 16 1 2] by simp

theorem Encoder_output_size_counterexample:
  "Encoder_shape (vae_encoder (VAE 4 2 32 8 16 1)) [2, 3, 32, 32] = Inr [2, 4, 8, 8] \<and>
   [2, 4, 8, 8] \<noteq> [2, 4, 4, 4::nat] \<and>
   Linear_apply (fc_mu (VAE 4 2 32 8 16 1)) [2, 4, 8, 8] = Inl RuntimeError \<and>
   VAE_forward_shape (VAE 4 2 32 8 16 1) [2, 3, 32, 32] = Inl RuntimeError"
  by (simp add: VAE_forward_shape_32) (simp add: VAE_def Encoder_shape_32 Linear_apply_def
      Linear_def Linear_shape_def)

text \<open>
  The encoder does not accept every hidden width: with \<open>H = 1\<close> its first convolution would
  have no output channel.
\<close>

lemma Encoder_shape_narrow:
  "Encoder_shape (vae_encoder (VAE 1 2 32 8 16 1)) [2, 3, 32, 32] = Inl RuntimeError"
  by (simp add: VAE_def Encoder_shape_def Encoder_def Conv2d_def Conv2d_shape_def and_then_def)


section \<open>Facts about the residual block\<close>

lemma relu_zeros: "relu_inplace (zeros sh) = zeros sh"
  by (simp add: relu_inplace_def zeros_def)

lemma ravel_bound:
  "list_all2 (<) ix sh \<Longrightarrow> sh \<noteq> [] \<Longrightarrow> ravel sh ix < prod_list sh"
proof (induction sh ix rule: ravel.induct)
  case (1 d ds i ix)
  then have i: "i < d" and rest: "list_all2 (<) ix ds" by simp_all
  show ?case
  proof (cases "ds = []")
    case True
    with rest i show ?thesis by simp
  next
    case False
    with 1 rest have "ravel ds ix < prod_list ds" by simp
    then have "i * prod_list ds + ravel ds ix < (i + 1) * prod_list ds" by simp
    also have "\<dots> \<le> d * prod_list ds" using i by (intro mult_le_mono1) simp
    finally show ?thesis by simp
  qed
qed simp_all

lemma unravel_bound:
  "\<forall>d\<in>set sh. 0 < d \<Longrightarrow> list_all2 (<) (unravel sh idx) sh"
  by (induction sh) simp_all

lemma prod_list_pos: "0 < prod_list sh \<Longrightarrow> \<forall>d\<in>set sh. 0 < (d::nat)"
  by (induction sh) simp_all

lemma elem_zeros: "list_all2 (<) ix sh \<Longrightarrow> sh \<noteq> [] \<Longrightarrow> elem (zeros sh) ix = 0"
  using ravel_bound [of ix sh] by (simp add: elem_def zeros_def)

lemma map_upt_zero: "(\<And>i. i < n \<Longrightarrow> f i = (0::real)) \<Longrightarrow> map f [0..<n] = replicate n 0"
  by (rule nth_equalityI) simp_all

lemma sum_list_upt_zero: "(\<And>i. i < n \<Longrightarrow> f i = (0::real)) \<Longrightarrow> (\<Sum>i\<leftarrow>[0..<n]. f i) = 0"
  by (simp add: map_upt_zero sum_list_replicate)

lemma conv_pixel_zero_weight:
  assumes "out_idx ! 1 < out_channels c"
  shows "conv_pixel c (zeros [out_channels c, in_channels c, kernel_size c, kernel_size c]) x out_idx = 0"
proof -
  have "elem (zeros [out_channels c, in_channels c, kernel_size c, kernel_size c])
          [out_idx ! 1, ch, di, dj] = 0"
    if "ch < in_channels c" "di < kernel_size c" "dj < kernel_size c" for ch di dj
    using assms that by (intro elem_zeros) simp_all
  then show ?thesis
    unfolding conv_pixel_def Let_def by (intro sum_list_upt_zero) simp
qed

lemma Conv2d_forward_zero_weight:
  assumes "Conv2d_shape c (dims x) = Inr sh"
  shows "Conv2d_forward c (zeros [out_channels c, in_channels c, kernel_size c, kernel_size c]) x =
         Inr (zeros sh)"
proof -
  from assms obtain n h w where sh: "sh = [n, out_channels c, h, w]"
    by (auto simp: Conv2d_shape_def split: list.splits if_splits)
  have "map (\<lambda>idx. conv_pixel c (zeros [out_channels c, in_channels c, kernel_size c, kernel_size c])
          x (unravel sh idx)) [0..<prod_list sh] = replicate (prod_list sh) 0"
  proof (rule map_upt_zero)
    fix idx assume "idx < prod_list sh"
    then have "list_all2 (<) (unravel sh idx) sh"
      by (intro unravel_bound prod_list_pos) simp
    then have "unravel sh idx ! 1 < out_channels c"
      by (simp add: sh)
    then show "conv_pixel c (zeros [out_channels c, in_channels c, kernel_size c, kernel_size c])
          x (unravel sh idx) = 0"
      by (rule conv_pixel_zero_weight)
  qed
  then show ?thesis
    by (simp add: Conv2d_forward_def assms and_then_def zeros_def)
qed

lemma tensor_add_zeros: "tensor_add (zeros sh) (zeros sh) = Inr (zeros sh)"
  by (simp add: tensor_add_def zeros_def broadcast_shape_same and_then_def)

text \<open>
  Claim C9, as the code has it. A residual block whose input and output have the same
  number \<open>c\<close> of channels (\<open>in_channels = num_hiddens\<close>, as in every block the network
  builds), with at least one channel and one residual channel, and whose two convolution
  weight tensors are all zero, returns an all-zero image batch of \<open>c\<close> channels and
  positive height and width exactly as it was given: the branch output is zero and is
  added to the input. The rectifier that opens the branch works in place on the input;
  on an all-zero input that leaves it unchanged, so both the caller's tensor after the
  call and the result are the input. (Without equal channel numbers the sum broadcasts
  to another size or raises.)
\<close>

theorem Residual_zero:
  assumes "0 < h" and "0 < w" and "0 < c" and "0 < r"
  shows "Residual_forward (Residual c c r) (zeros [r, c, 3, 3]) (zeros [c, r, 1, 1])
           (zeros [n, c, h, w]) = Inr (zeros [n, c, h, w], zeros [n, c, h, w])"
proof -
  let ?R = "Residual c c r"
  have s1: "Conv2d_shape (block_conv_1 ?R) (dims (zeros [n, c, h, w])) = Inr [n, r, h, w]"
    using assms by (simp add: Residual_def Conv2d_def Conv2d_shape_def conv_out_def zeros_def)
  have s2: "Conv2d_shape (block_conv_2 ?R) (dims (zeros [n, r, h, w])) = Inr [n, c, h, w]"
    using assms by (simp add: Residual_def Conv2d_def Conv2d_shape_def conv_out_def zeros_def)
  have c1: "Conv2d_forward (block_conv_1 ?R) (zeros [r, c, 3, 3]) (zeros [n, c, h, w]) =
            Inr (zeros [n, r, h, w])"
    using Conv2d_forward_zero_weight [OF s1] by (simp add: Residual_def Conv2d_def)
  have c2: "Conv2d_forward (block_conv_2 ?R) (zeros [c, r, 1, 1]) (zeros [n, r, h, w]) =
            Inr (zeros [n, c, h, w])"
    using Conv2d_forward_zero_weight [OF s2] by (simp add: Residual_def Conv2d_def)
  show ?thesis
    by (simp only: Residual_forward_def Let_def relu_zeros c1 c2 and_then_def tensor_add_zeros
        sum.case)
qed

theorem Residual_zero_witness:
  "Residual_forward (Residual 2 2 3) (zeros [3, 2, 3, 3]) (zeros [2, 3, 1, 1]) (zeros [1, 2, 2, 2]) =
     Inr (\<lparr>dims = [1, 2, 2, 2], storage = [0, 0, 0, 0, 0, 0, 0, 0]\<rparr>,
          \<lparr>dims = [1, 2, 2, 2], storage = [0, 0, 0, 0, 0, 0, 0, 0]\<rparr>)"
  using Residual_zero [of 2 2 2 3 1]
  by (simp add: zeros_def numeral_eq_Suc)

lemma tensor_add_stretch: "tensor_add (zeros [1, 1, 2, 2]) (zeros [1, 3, 2, 2]) = Inr (zeros [1, 3, 2, 2])"
  by code_simp

theorem Residual_zero_counterexample:
  "Residual_forward (Residual 1 3 2) (zeros [2, 1, 3, 3]) (zeros [3, 2, 1, 1]) (zeros [1, 1, 2, 2]) =
     Inr (zeros [1, 1, 2, 2], zeros [1, 3, 2, 2]) \<and>
   zeros [1, 3, 2, 2] \<noteq> zeros [1, 1, 2, 2] \<and>
   Residual_forward (Residual 2 3 1) (zeros [1, 2, 3, 3]) (zeros [3, 1, 1, 1]) (zeros [1, 2, 2, 2]) =
     Inl RuntimeError"
proof -
  have s1: "Conv2d_shape (block_conv_1 (Residual 1 3 2)) (dims (zeros [1, 1, 2, 2])) = Inr [1, 2, 2, 2]"
    by (simp add: Residual_def Conv2d_def Conv2d_shape_def conv_out_def zeros_def)
  have s2: "Conv2d_shape (block_conv_2 (Residual 1 3 2)) (dims (zeros [1, 2, 2, 2])) = Inr [1, 3, 2, 2]"
    by (simp add: Residual_def Conv2d_def Conv2d_shape_def conv_out_def zeros_def)
  have c1: "Conv2d_forward (block_conv_1 (Residual 1 3 2)) (zeros [2, 1, 3, 3]) (zeros [1, 1, 2, 2]) =
            Inr (zeros [1, 2, 2, 2])"
    using Conv2d_forward_zero_weight [OF s1] by (simp add: Residual_def Conv2d_def)
  have c2: "Conv2d_forward (block_conv_2 (Residual 1 3 2)) (zeros [3, 2, 1, 1]) (zeros [1, 2, 2, 2]) =
            Inr (zeros [1, 3, 2, 2])"
    using Conv2d_forward_zero_weight [OF s2] by (simp add: Residual_def Conv2d_def)
  have a: "Residual_forward (Residual 1 3 2) (zeros [2, 1, 3, 3]) (zeros [3, 2, 1, 1]) (zeros [1, 1, 2, 2]) =
     Inr (zeros [1, 1, 2, 2], zeros [1, 3, 2, 2])"
    by (simp only: Residual_forward_def Let_def relu_zeros c1 c2 and_then_def tensor_add_stretch sum.case)
  have t1: "Conv2d_shape (block_conv_1 (Residual 2 3 1)) (dims (zeros [1, 2, 2, 2])) = Inr [1, 1, 2, 2]"
    by (simp add: Residual_def Conv2d_def Conv2d_shape_def conv_out_def zeros_def)
  have t2: "Conv2d_shape (block_conv_2 (Residual 2 3 1)) (dims (zeros [1, 1, 2, 2])) = Inr [1, 3, 2, 2]"
    by (simp add: Residual_def Conv2d_def Conv2d_shape_def conv_out_def zeros_def)
  have d1: "Conv2d_forward (block_conv_1 (Residual 2 3 1)) (zeros [1, 2, 3, 3]) (zeros [1, 2, 2, 2]) =
            Inr (zeros [1, 1, 2, 2])"
    using Conv2d_forward_zero_weight [OF t1] by (simp add: Residual_def Conv2d_def)
  have d2: "Conv2d_forward (block_conv_2 (Residual 2 3 1)) (zeros [3, 1, 1, 1]) (zeros [1, 1, 2, 2]) =
            Inr (zeros [1, 3, 2, 2])"
    using Conv2d_forward_zero_weight [OF t2] by (simp add: Residual_def Conv2d_def)
  have add2: "tensor_add (zeros [1, 2, 2, 2]) (zeros [1, 3, 2, 2]) = Inl RuntimeError"
    by (simp add: tensor_add_def zeros_def broadcast_shape_def and_then_def)
  have b: "Residual_forward (Residual 2 3 1) (zeros [1, 2, 3, 3]) (zeros [3, 1, 1, 1]) (zeros [1, 2, 2, 2]) =
     Inl RuntimeError"
    by (simp only: Residual_forward_def Let_def relu_zeros d1 d2 and_then_def add2 sum.case)
  have "zeros [1, 3, 2, 2] \<noteq> zeros [1, 1, 2, 2]"
    by (simp add: zeros_def)
  with a b show ?thesis by simp
qed


section \<open>Facts about the learning-rate scheduler\<close>

lemma is_better_same:
  "best t' = best t \<Longrightarrow> threshold t' = threshold t \<Longrightarrow> is_better t' m = is_better t m"
  by (simp add: is_better_def split: option.splits)

lemma bad_steps:
  assumes "cooldown_counter t = 0" and "patience t = 10"
    and "\<forall>m\<in>set ms. \<not> is_better t m"
    and "num_bad_epochs t + length ms \<le> 10"
  shows "scheduler_steps ms t =
         t\<lparr>last_epoch := last_epoch t + length ms,
           num_bad_epochs := num_bad_epochs t + length ms\<rparr>"
  using assms
proof (induction ms arbitrary: t)
  case Nil
  then show ?case by (simp add: scheduler_steps_def)
next
  case (Cons m ms)
  let ?t' = "t\<lparr>last_epoch := last_epoch t + 1, num_bad_epochs := num_bad_epochs t + 1\<rparr>"
  have "is_better (t\<lparr>last_epoch := last_epoch t + 1\<rparr>) m = is_better t m"
    by (rule is_better_same) simp_all
  with Cons.prems have step: "scheduler_step m t = ?t'"
    by (simp add: scheduler_step_def Let_def)
  have "scheduler_steps ms ?t' =
        ?t'\<lparr>last_epoch := last_epoch ?t' + length ms,
            num_bad_epochs := num_bad_epochs ?t' + length ms\<rparr>"
  proof (rule Cons.IH)
    have "is_better ?t' x = is_better t x" for x
      by (rule is_better_same) simp_all
    with Cons.prems show "\<forall>m\<in>set ms. \<not> is_better ?t' m" by simp
  qed (use Cons.prems in simp_all)
  then show ?case
    using step by (simp add: scheduler_steps_def)
qed

lemma cooldown_steps:
  assumes "length ms \<le> cooldown_counter t" and "num_bad_epochs t = 0"
  shows "lr (scheduler_steps ms t) = lr t \<and>
         cooldown_counter (scheduler_steps ms t) = cooldown_counter t - length ms \<and>
         num_bad_epochs (scheduler_steps ms t) = 0"
  using assms
proof (induction ms arbitrary: t)
  case Nil
  then show ?case by (simp add: scheduler_steps_def)
next
  case (Cons m ms)
  let ?t' = "scheduler_step m t"
  from Cons.prems have t': "lr ?t' = lr t \<and> cooldown_counter ?t' = cooldown_counter t - 1
      \<and> num_bad_epochs ?t' = 0"
    by (simp add: scheduler_step_def Let_def)
  with Cons.prems have "lr (scheduler_steps ms ?t') = lr ?t' \<and>
         cooldown_counter (scheduler_steps ms ?t') = cooldown_counter ?t' - length ms \<and>
         num_bad_epochs (scheduler_steps ms ?t') = 0"
    by (intro Cons.IH) simp_all
  with t' show ?case by (simp add: scheduler_steps_def)
qed

lemma scheduler_steps_append:
  "scheduler_steps (xs @ ys) s = scheduler_steps ys (scheduler_steps xs s)"
  by (simp add: scheduler_steps_def)

text \<open>
  Claim C7, as the code has it. The scheduler that the constructor of \<open>Strategy\<close> builds
  is given \<open>factor=0.8\<close> and \<open>cooldown=8\<close> and no \<open>patience\<close>, so the patience is the
  library's 10. From a state with no bad steps counted and no cooldown running, up to
  10 consecutive steps without improvement leave the learning rate as it is; the 11th
  multiplies it by 0.8 (when that lowers it by more than \<open>eps\<close>) and starts a cooldown of
  8 steps, during which the counter of bad steps stays at zero and the rate is kept.
\<close>

theorem Strategy_scheduler_reduces:
  assumes s: "s = (Strategy_scheduler l0)\<lparr>lr := l, best := Some b, last_epoch := e\<rparr>"
    and bad: "\<forall>m\<in>set ms. \<not> is_better s m"
    and l: "1 / 100000000 < l * (2 / 10)"
  shows "(length ms \<le> 10 \<longrightarrow> lr (scheduler_steps ms s) = l) \<and>
         (length ms = 11 \<longrightarrow>
            lr (scheduler_steps ms s) = (8 / 10) * l \<and>
            cooldown_counter (scheduler_steps ms s) = 8 \<and>
            (\<forall>ms'. length ms' \<le> 8 \<longrightarrow>
               lr (scheduler_steps (ms @ ms') s) = (8 / 10) * l \<and>
               cooldown_counter (scheduler_steps (ms @ ms') s) = 8 - length ms' \<and>
               num_bad_epochs (scheduler_steps (ms @ ms') s) = 0))"
proof -
  have cfg: "cooldown_counter s = 0" "patience s = 10" "num_bad_epochs s = 0" "lr s = l"
    "factor s = 8 / 10" "min_lr s = 0" "eps s = 1 / 100000000" "cooldown s = 8"
    by (simp_all add: s Strategy_scheduler_def ReduceLROnPlateau_def)
  have few: "lr (scheduler_steps ms s) = l" if "length ms \<le> 10"
    using bad_steps [of s ms] cfg bad that by simp
  have lpos: "0 < l" using l by simp
  have red: "max (l * (8 / 10)) 0 = l * (8 / 10)" "1 / 100000000 < l - l * (8 / 10)"
    using l by simp_all
  have eleven: "lr (scheduler_steps ms s) = (8 / 10) * l \<and>
      cooldown_counter (scheduler_steps ms s) = 8 \<and>
      num_bad_epochs (scheduler_steps ms s) = 0" if len: "length ms = 11"
  proof -
    from len have "ms \<noteq> []" by auto
    then obtain xs m where ms: "ms = xs @ [m]" by (metis rev_exhaust)
    with len have lx: "length xs = 10" by simp
    from bad ms have badx: "\<forall>m\<in>set xs. \<not> is_better s m" and badm: "\<not> is_better s m"
      by simp_all
    let ?t = "s\<lparr>last_epoch := last_epoch s + 10, num_bad_epochs := 10\<rparr>"
    have t: "scheduler_steps xs s = ?t"
      using bad_steps [of s xs] cfg badx lx by simp
    have run: "scheduler_steps ms s = scheduler_step m ?t"
      by (simp add: ms scheduler_steps_append t) (simp add: scheduler_steps_def)
    have nb: "\<not> is_better (?t\<lparr>last_epoch := last_epoch ?t + 1\<rparr>) m"
      using badm is_better_same [of "?t\<lparr>last_epoch := last_epoch ?t + 1\<rparr>" s m] by simp
    have "scheduler_step m ?t =
          (reduce_lr (?t\<lparr>last_epoch := last_epoch ?t + 1, num_bad_epochs := 11\<rparr>))
            \<lparr>cooldown_counter := 8, num_bad_epochs := 0\<rparr>"
      using nb cfg by (simp add: scheduler_step_def Let_def)
    moreover have "lr (reduce_lr (?t\<lparr>last_epoch := last_epoch ?t + 1, num_bad_epochs := 11\<rparr>)) =
          l * (8 / 10)"
      using red by (simp add: reduce_lr_def Let_def cfg)
    ultimately show ?thesis
      by (simp add: run)
  qed
  have cool: "lr (scheduler_steps (ms @ ms') s) = (8 / 10) * l \<and>
       cooldown_counter (scheduler_steps (ms @ ms') s) = 8 - length ms' \<and>
       num_bad_epochs (scheduler_steps (ms @ ms') s) = 0"
    if "length ms = 11" "length ms' \<le> 8" for ms'
    using cooldown_steps [of ms' "scheduler_steps ms s"] eleven that
    by (simp add: scheduler_steps_append)
  from few eleven cool show ?thesis by blast
qed

theorem Strategy_scheduler_reduces_witness:
  "lr (scheduler_steps (replicate 10 1) ((Strategy_scheduler 1)\<lparr>best := Some 1\<rparr>)) = 1 \<and>
   lr (scheduler_steps (replicate 11 1) ((Strategy_scheduler 1)\<lparr>best := Some 1\<rparr>)) = 8 / 10"
proof -
  have s: "(Strategy_scheduler 1)\<lparr>best := Some 1\<rparr> =
           (Strategy_scheduler 1)\<lparr>lr := 1, best := Some 1, last_epoch := 0\<rparr>"
    by (simp add: Strategy_scheduler_def ReduceLROnPlateau_def)
  have bad: "\<forall>m\<in>set (replicate n 1). \<not> is_better ((Strategy_scheduler 1)\<lparr>best := Some 1\<rparr>) m" for n
    by (simp add: is_better_def Strategy_scheduler_def ReduceLROnPlateau_def)
  show ?thesis
    using Strategy_scheduler_reduces [OF s bad [of 10]] Strategy_scheduler_reduces [OF s bad [of 11]]
    by simp
qed

theorem Strategy_scheduler_counterexample:
  "patience (Strategy_scheduler 1) = 10 \<and>
   lr (scheduler_steps (replicate 8 1) ((Strategy_scheduler 1)\<lparr>best := Some 1\<rparr>)) = 1 \<and>
   num_bad_epochs (scheduler_steps (replicate 8 1) ((Strategy_scheduler 1)\<lparr>best := Some 1\<rparr>)) = 8"
  by (simp add: Strategy_scheduler_def ReduceLROnPlateau_def scheduler_steps_def numeral_eq_Suc
      scheduler_step_def is_better_def Let_def)

section \<open>Facts about Strategy\<close>

text \<open>
  Claim C1 fails on the code. \<open>Strategy\<close> calls the uncertainty network with two arguments
  (the batch and the uncertainty score) in the training step and in the evaluation step;
  \<open>VAE.forward\<close> takes one, so with the network of \<open>vae.py\<close> both steps raise \<open>TypeError\<close>.
  The evaluation step moreover unpacks three values, which the four values that
  \<open>VAE.forward\<close> returns can never fill.
\<close>

theorem Strategy_VAE_call_mismatch:
  "train_loss (env\<lparr>vae_net := VAE_call v\<rparr>) st x = Inl TypeError \<and>
   eval_loss (env\<lparr>vae_net := VAE_call v\<rparr>) x = Inl TypeError \<and>
   (\<forall>y r. and_then (VAE_call v [y]) (unpack 3) \<noteq> Inr r)"
proof -
  have "and_then (VAE_call v [y]) (unpack 3) \<noteq> Inr r" for y r
    by (cases "VAE_forward_shape v y")
      (auto simp: VAE_call_def and_then_def unpack_def split: prod.splits)
  then show ?thesis
    by (simp add: train_loss_def eval_loss_def VAE_call_def and_then_def)
qed

text \<open>
  Claim C3 fails on the code. The evaluation pass never computes the ratio: when the
  loop over the test batches comes to its end, \<open>correct / total\<close> is \<open>0 / 0\<close> on integers
  and raises \<open>ZeroDivisionError\<close>; otherwise the loop has raised already. Either way the
  pass does not return, the best accuracy is not updated and no checkpoint is written,
  and so no epoch of training returns either.
\<close>

theorem evaluate_raises:
  "evaluate env st test_loader =
     (case eval_batches env AverageMeter test_loader of
        Inl e \<Rightarrow> Inl e
      | Inr avg_loss \<Rightarrow> Inl ZeroDivisionError) \<and>
   evaluate env st [] = Inl ZeroDivisionError \<and>
   (\<forall>st'. evaluate env st test_loader \<noteq> Inr st') \<and>
   (\<forall>st'. train_by_epoch env st train_loader test_loader \<noteq> Inr st')"
proof -
  have ev: "evaluate env s tl =
     (case eval_batches env AverageMeter tl of Inl e \<Rightarrow> Inl e | Inr avg_loss \<Rightarrow> Inl ZeroDivisionError)"
    for s :: "('a, 'b) strategy" and tl
    by (simp add: evaluate_def py_truediv_def and_then_def split: sum.splits)
  then have no: "evaluate env s tl \<noteq> Inr s'" for s s' :: "('a, 'b) strategy" and tl
    by (simp split: sum.splits)
  have "train_by_epoch env st train_loader test_loader \<noteq> Inr st'" for st'
    using no by (simp add: train_by_epoch_def and_then_def Let_def split: sum.splits)
  with ev no show ?thesis
    by (simp add: ev [of st "[]"])
qed

text \<open>
  The training step on its own terms. If the call of the network returned the four
  values that the step unpacks, the loss would be \<open>recon_error + vq_loss\<close> in cycle 0 and
  \<open>recon_error + vq_loss + mean(|u_score - distance / vae_distance|)\<close> in every later
  cycle. The first \<open>loss.backward()\<close> would pass this loss back; the second, through the
  graph that the first has freed, would raise before the optimizer steps.
\<close>

lemma train_loss_autograd:
  "train_loss env (st\<lparr>autograd := a\<rparr>) x = train_loss env st x"
  by (simp add: train_loss_def Let_def cong: if_cong)

lemma train_loss_four_values:
  assumes "vae_net env [x, uncertainty_score env (task_net env x)] =
             Inr [vq_loss, data_recon, perplexity, distance]"
  shows "train_loss env st x =
           Inr (if step_cnt st = 0
                then tensor_plus env (loss_fn env data_recon x) vq_loss
                else tensor_plus env (tensor_plus env (loss_fn env data_recon x) vq_loss)
                       (tensor_mean env (tensor_abs env
                          (tensor_minus env (uncertainty_score env (task_net env x))
                             (tensor_div env distance (vae_distance (config st)))))))"
  using assms by (simp add: train_loss_def and_then_def unpack_def Let_def)

lemma backward_twice:
  assumes "requires_grad env loss" and "saves_tensors env loss"
  shows "and_then (backward env (done @ [ZeroGrad]) loss) (\<lambda>once. backward env once loss) =
         Inl RuntimeError"
  using assms by (simp add: backward_def passed_before_def and_then_def)

lemma train_step_second_backward:
  assumes "train_loss env st x = Inr loss"
    and "requires_grad env loss" and "saves_tensors env loss"
  shows "train_step env (st, avg_loss) x = Inl RuntimeError"
  using assms
  by (simp add: train_step_def train_loss_autograd Let_def and_then_def backward_def
      passed_before_def)

text \<open>
  Claim C6 fails on the code. With the network of \<open>vae.py\<close> the training step raises
  \<open>TypeError\<close> at the call of line 148, before the loss of lines 150 to 153 is formed:
  no loss is passed back, in cycle 0 or later, and a loader with a batch ends the
  training loop with that exception.
\<close>

theorem train_step_raises:
  "train_step (env\<lparr>vae_net := VAE_call v\<rparr>) (st, avg_loss) x = Inl TypeError \<and>
   train_batches (env\<lparr>vae_net := VAE_call v\<rparr>) (st, avg_loss) (d # ds) = Inl TypeError"
proof -
  have "train_step (env\<lparr>vae_net := VAE_call v\<rparr>) sm y = Inl TypeError"
    for sm :: "(nat list, 'a) strategy \<times> average_meter" and y
    by (simp add: train_step_def train_loss_def VAE_call_def and_then_def Let_def)
  then show ?thesis
    by (simp add: and_then_def)
qed

text \<open>
  \<open>load_checkpoint\<close> on its own terms: a missing \<open>task.pth.tar\<close> is caught, three lines
  are printed, the method returns and the weights of the classifier stay; a file with a
  \<open>task_state_dict\<close> entry gives the classifier that entry.
\<close>

lemma load_checkpoint_recovers:
  "(files st (task_filename st) = None \<longrightarrow>
      load_checkpoint st =
        Inr (st\<lparr>stdout := stdout st @
               [''Loading checkpoint '' @ quoted (task_filename st),
                ''No checkpoint exists from '' @ quoted (checkpoint_directory (config st))
                  @ ''. Skipping...'',
                ''**First time to train**'']\<rparr>)) \<and>
   (\<forall>checkpoint w.
      files st (task_filename st) = Some checkpoint \<and> checkpoint ''task_state_dict'' = Some w \<longrightarrow>
      load_checkpoint st =
        Inr (st\<lparr>stdout := stdout st @ [''Loading checkpoint '' @ quoted (task_filename st)],
               task_weights := w\<rparr>))"
  by (simp add: load_checkpoint_def torch_load_def subscript_def and_then_def print_line_def
      Let_def)

text \<open>
  Claim C8 fails on the code. Constructing a \<open>Strategy\<close> never completes, whether
  \<open>task.pth.tar\<close> exists or not: line 62 builds the uncertainty network from eight
  arguments, \<open>VAE.__init__\<close> takes six, and the \<open>TypeError\<close> leaves the constructor
  before \<open>load_checkpoint\<close> (line 90) is reached. No message of \<open>load_checkpoint\<close> is
  printed.
\<close>

theorem Strategy_init_raises:
  "Strategy_init cfg cycle seed fresh_task fresh_vae n_parameters fs = Inl TypeError"
  by (simp add: Strategy_init_def VAE_construct_def and_then_def)

end
